theory Spec2Isabelle
  imports Complex_Main
begin

section \<open>Todo records and the mutators of the Context variant\<close>

text \<open>
  The todo application keeps an array of objects \<^verbatim>\<open>{id, todo, completed}\<close>. The
  form component, the only caller of \<^verbatim>\<open>addTodo\<close>, builds the payload
  \<^verbatim>\<open>{todo, completed: false}\<close>, which has no \<^verbatim>\<open>id\<close> field, and \<^verbatim>\<open>addTodo\<close> spreads it
  behind the \<^verbatim>\<open>id\<close> it makes: a stored record is the payload extended by the field
  \<^verbatim>\<open>id\<close> (named \<open>todo_id\<close> here, since \<open>id\<close> is HOL's identity function), and the
  spread has no \<^verbatim>\<open>id\<close> to override it with. \<^verbatim>\<open>Date.now()\<close> returns integer
  milliseconds.
\<close>

record payload =
  todo :: string
  completed :: bool

record todo_record = payload +
  todo_id :: int

text \<open>The exceptions the modelled JavaScript can raise.\<close>

datatype js_error = ReferenceError string | TypeError string | SyntaxError string

text \<open>
  \<^verbatim>\<open>Array.prototype.map\<close> with a callback that may throw: the callback runs on the
  elements from left to right and the first exception aborts the whole call.
\<close>

fun map_throwing :: "('a \<Rightarrow> js_error + 'b) \<Rightarrow> 'a list \<Rightarrow> js_error + 'b list" where
  "map_throwing f [] = Inr []"
| "map_throwing f (x # xs) =
     (case f x of
        Inl e \<Rightarrow> Inl e
      | Inr y \<Rightarrow> (case map_throwing f xs of Inl e \<Rightarrow> Inl e | Inr ys \<Rightarrow> Inr (y # ys)))"

text \<open>
  The four closures of \<^verbatim>\<open>App\<close> (DETAILED_TODO_CONTEXT.md, lines 331-355). Each one
  hands \<^verbatim>\<open>setTodos\<close> an updater \<^verbatim>\<open>(prev) => ...\<close>; the definitions below are these
  updaters, with the closure's arguments first and \<open>prev\<close> last. The reading of the
  clock, \<^verbatim>\<open>Date.now()\<close>, is the argument \<open>now\<close> of \<open>addTodo\<close>.

  \<^verbatim>\<open>setTodos((prev) => [{ id: Date.now(), ...todo }, ...prev])\<close>
\<close>

definition addTodo :: "int \<Rightarrow> payload \<Rightarrow> todo_record list \<Rightarrow> todo_record list" where
  "addTodo now p prev = \<lparr>todo = todo p, completed = completed p, todo_id = now\<rparr> # prev"

text \<open>\<^verbatim>\<open>prev.map((prevTodo) => (prevTodo.id === id ? todo : prevTodo))\<close>, where
  \<^verbatim>\<open>todo\<close> is the second parameter of \<^verbatim>\<open>updatedTodo\<close>.\<close>

definition updatedTodo :: "int \<Rightarrow> todo_record \<Rightarrow> todo_record list \<Rightarrow> todo_record list" where
  "updatedTodo i t prev = map (\<lambda>prevTodo. if todo_id prevTodo = i then t else prevTodo) prev"

text \<open>
  \<^verbatim>\<open>deleteTodo\<close> has the same body as \<^verbatim>\<open>updatedTodo\<close>, but its only parameter is
  \<^verbatim>\<open>id\<close>: the identifier \<^verbatim>\<open>todo\<close> in the callback is bound nowhere in \<^verbatim>\<open>App\<close> or in
  the module, so evaluating it raises a ReferenceError. The conditional evaluates it
  only for a record whose id matches.
\<close>

definition deleteTodo :: "int \<Rightarrow> todo_record list \<Rightarrow> js_error + todo_record list" where
  "deleteTodo i prev =
     map_throwing
       (\<lambda>prevTodo. if todo_id prevTodo = i then Inl (ReferenceError ''todo'') else Inr prevTodo)
       prev"

text \<open>\<^verbatim>\<open>prev.map((prevTodo) => prevTodo.id === id
     ? { ...prevTodo, completed: !prevTodo.completed } : prevTodo)\<close>\<close>

definition toggleComplete :: "int \<Rightarrow> todo_record list \<Rightarrow> todo_record list" where
  "toggleComplete i prev =
     map (\<lambda>prevTodo. if todo_id prevTodo = i
                      then prevTodo\<lparr>completed := \<not> completed prevTodo\<rparr>
                      else prevTodo) prev"

section \<open>Sequences of addTodo and deleteTodo calls\<close>

text \<open>
  React applies the updaters handed to \<^verbatim>\<open>setTodos\<close> in the order of the calls. A call
  of \<^verbatim>\<open>addTodo\<close> carries the clock reading it makes; an exception of an updater ends
  the run.
\<close>

datatype todo_call = CallAddTodo int payload | CallDeleteTodo int

fun apply_call :: "todo_call \<Rightarrow> todo_record list \<Rightarrow> js_error + todo_record list" where
  "apply_call (CallAddTodo now p) prev = Inr (addTodo now p prev)"
| "apply_call (CallDeleteTodo i) prev = deleteTodo i prev"

fun run_calls :: "todo_call list \<Rightarrow> todo_record list \<Rightarrow> js_error + todo_record list" where
  "run_calls [] s = Inr s"
| "run_calls (c # cs) s =
     (case apply_call c s of Inl e \<Rightarrow> Inl e | Inr s' \<Rightarrow> run_calls cs s')"

text \<open>The records a sequence of calls adds, the most recent first, and the clock
  readings of its adds in call order.\<close>

fun added_records :: "todo_call list \<Rightarrow> todo_record list" where
  "added_records [] = []"
| "added_records (CallAddTodo now p # cs) =
     added_records cs @ [\<lparr>todo = todo p, completed = completed p, todo_id = now\<rparr>]"
| "added_records (CallDeleteTodo i # cs) = added_records cs"

fun clock_readings :: "todo_call list \<Rightarrow> int list" where
  "clock_readings [] = []"
| "clock_readings (CallAddTodo now p # cs) = now # clock_readings cs"
| "clock_readings (CallDeleteTodo i # cs) = clock_readings cs"

text \<open>\<open>deletes_absent cs ids\<close>: started from a collection holding the ids \<open>ids\<close>, no
  \<^verbatim>\<open>deleteTodo\<close> of \<open>cs\<close> names an id that is in the collection when it runs.\<close>

fun deletes_absent :: "todo_call list \<Rightarrow> int list \<Rightarrow> bool" where
  "deletes_absent [] ids = True"
| "deletes_absent (CallAddTodo now p # cs) ids = deletes_absent cs (now # ids)"
| "deletes_absent (CallDeleteTodo i # cs) ids = (i \<notin> set ids \<and> deletes_absent cs ids)"

section \<open>The theme store\<close>

text \<open>
  \<^verbatim>\<open>App\<close> of the theme switcher (README.md, lines 141-149) holds the string state
  \<^verbatim>\<open>themeMode\<close>, created by \<^verbatim>\<open>useState("light")\<close>. The two setters replace the
  state: each is modelled as the function from the old state to the new one.
\<close>

definition themeMode_initial :: string where
  "themeMode_initial = ''light''"

definition lightTheme :: "string \<Rightarrow> string" where
  "lightTheme themeMode = ''light''"

definition darkTheme :: "string \<Rightarrow> string" where
  "darkTheme themeMode = ''dark''"

datatype setter_call = CallLightTheme | CallDarkTheme

fun invoke :: "setter_call \<Rightarrow> string \<Rightarrow> string" where
  "invoke CallLightTheme themeMode = lightTheme themeMode"
| "invoke CallDarkTheme themeMode = darkTheme themeMode"

definition run_setters :: "setter_call list \<Rightarrow> string \<Rightarrow> string" where
  "run_setters calls themeMode = foldl (\<lambda>s c. invoke c s) themeMode calls"

section \<open>JavaScript values of the rate lookup\<close>

text \<open>
  What \<^verbatim>\<open>res.json()\<close> can produce: a JSON value. A number is written as the rational
  its literal denotes; the hook passes numbers on and computes with none. A variable
  holds a JSON value or \<^verbatim>\<open>undefined\<close>.
\<close>

datatype json =
    JNull
  | JBool bool
  | JNum rat
  | JStr string
  | JArr "json list"
  | JObj "(string \<times> json) list"

datatype jsval = Undefined | JSON json

text \<open>
  The environment of the hook: \<^verbatim>\<open>fetch\<close> either fails (network error: the promise
  rejects with a TypeError) or answers with a response of any HTTP status, whose body
  \<^verbatim>\<open>res.json()\<close> can or cannot read as JSON text. \<^verbatim>\<open>fetch\<close> does not reject on a
  non-2xx status.
\<close>

datatype parsed = Malformed | Parsed json

record response =
  status :: nat
  body :: parsed

datatype fetch_outcome = NetworkFailure | Responded response

definition fetch :: "fetch_outcome \<Rightarrow> js_error + response" where
  "fetch out =
     (case out of
        NetworkFailure \<Rightarrow> Inl (TypeError ''Failed to fetch'')
      | Responded res \<Rightarrow> Inr res)"

text \<open>\<^verbatim>\<open>res.json()\<close>: rejects with a SyntaxError when the body is not JSON.\<close>

definition response_json :: "response \<Rightarrow> js_error + json" where
  "response_json res =
     (case body res of
        Malformed \<Rightarrow> Inl (SyntaxError ''JSON'')
      | Parsed v \<Rightarrow> Inr v)"

text \<open>
  The property read \<^verbatim>\<open>res.rates\<close>: a TypeError on \<^verbatim>\<open>null\<close>, the property's value on
  an object that has it (the last one of duplicate keys, as \<^verbatim>\<open>JSON.parse\<close> keeps it),
  and \<^verbatim>\<open>undefined\<close> on every other value.
\<close>

definition rates :: "json \<Rightarrow> js_error + jsval" where
  "rates res =
     (case res of
        JNull \<Rightarrow> Inl (TypeError ''rates'')
      | JObj kvs \<Rightarrow>
          (case map_of (rev kvs) ''rates'' of
             None \<Rightarrow> Inr Undefined
           | Some v \<Rightarrow> Inr (JSON v))
      | _ \<Rightarrow> Inr Undefined)"

text \<open>
  A settled promise is a value of \<open>js_error + 'a\<close>: rejected (\<open>Inl\<close>) or fulfilled.
  \<^verbatim>\<open>.then(f)\<close> runs \<open>f\<close> on a fulfilled value and passes a rejection on; \<^verbatim>\<open>.catch(h)\<close>
  runs \<open>h\<close> on a rejection and passes a fulfilled value on.
\<close>

definition promise_then :: "js_error + 'a \<Rightarrow> ('a \<Rightarrow> js_error + 'b) \<Rightarrow> js_error + 'b" where
  "promise_then p f = (case p of Inl e \<Rightarrow> Inl e | Inr v \<Rightarrow> f v)"

definition promise_catch :: "js_error + 'a \<Rightarrow> (js_error \<Rightarrow> js_error + 'a) \<Rightarrow> js_error + 'a" where
  "promise_catch p h = (case p of Inl e \<Rightarrow> h e | Inr v \<Rightarrow> Inr v)"

section \<open>useCurrencyInfo\<close>

text \<open>
  The hook's state \<^verbatim>\<open>data\<close> starts as \<^verbatim>\<open>{}\<close> (\<^verbatim>\<open>useState({})\<close>); \<^verbatim>\<open>setData\<close>
  replaces it. The effect is the promise chain
  \<^verbatim>\<open>fetch(url).then((res) => res.json()).then((res) => setData(res.rates))
     .catch((error) => { console.error(...); setData({}) })\<close>.
  \<open>useCurrencyInfo_effect out data\<close> is the chain run to its end in the environment
  \<open>out\<close> from the state \<open>data\<close>: \<open>Inr\<close> of the new state, or \<open>Inl\<close> of an exception
  nothing caught.
\<close>

definition useCurrencyInfo_initial :: jsval where
  "useCurrencyInfo_initial = JSON (JObj [])"

definition setData :: "jsval \<Rightarrow> jsval \<Rightarrow> jsval" where
  "setData v data = v"

definition useCurrencyInfo_effect :: "fetch_outcome \<Rightarrow> jsval \<Rightarrow> js_error + jsval" where
  "useCurrencyInfo_effect out data =
     promise_catch
       (promise_then
          (promise_then (fetch out) response_json)
          (\<lambda>res. case rates res of Inl e \<Rightarrow> Inl e | Inr v \<Rightarrow> Inr (setData v data)))
       (\<lambda>error. Inr (setData (JSON (JObj [])) data))"

section \<open>React contexts and the consumer hooks\<close>

text \<open>
  React's \<^verbatim>\<open>createContext(d)\<close> makes a context with the default value \<open>d\<close>;
  \<^verbatim>\<open>useContext(c)\<close> returns the \<^verbatim>\<open>value\<close> of the nearest enclosing \<^verbatim>\<open>Provider\<close> of
  \<open>c\<close>, and the default value when no provider of \<open>c\<close> encloses the caller. The
  enclosing providers of one context are given as the list of their values, the
  innermost first; outside any provider the list is empty.
\<close>

datatype 'v react_context = Context (defaultValue: 'v)

definition createContext :: "'v \<Rightarrow> 'v react_context" where
  "createContext d = Context d"

definition useContext :: "'v react_context \<Rightarrow> 'v list \<Rightarrow> 'v" where
  "useContext c providers = (case providers of [] \<Rightarrow> defaultValue c | v # _ \<Rightarrow> v)"

text \<open>
  A function of a context value acts on whatever state \<open>'s\<close> its provider owns: it is
  given its arguments and the state, and raises or returns a JavaScript value and the
  new state. The body \<^verbatim>\<open>{}\<close> of the default functions returns \<^verbatim>\<open>undefined\<close> and
  touches nothing.
\<close>

type_synonym 's effect = "'s \<Rightarrow> js_error + (jsval \<times> 's)"

definition empty_body :: "'s effect" where
  "empty_body s = Inr (Undefined, s)"

text \<open>TodoContext.js, lines 3-26. The fields of the context value carry the prefix
  \<open>v_\<close>, since \<open>addTodo\<close> and the others name the closures of \<^verbatim>\<open>App\<close> above.\<close>

record 's todo_value =
  v_todos :: "todo_record list"
  v_addTodo :: "payload \<Rightarrow> 's effect"
  v_updatedTodo :: "int \<Rightarrow> todo_record \<Rightarrow> 's effect"
  v_deleteTodo :: "int \<Rightarrow> 's effect"
  v_toggleComplete :: "int \<Rightarrow> 's effect"

definition TodoContext :: "'s todo_value react_context" where
  "TodoContext =
     createContext
       \<lparr>v_todos = [\<lparr>todo = '' Todo msg'', completed = False, todo_id = 1\<rparr>],
        v_addTodo = (\<lambda>_. empty_body),
        v_updatedTodo = (\<lambda>_ _. empty_body),
        v_deleteTodo = (\<lambda>_. empty_body),
        v_toggleComplete = (\<lambda>_. empty_body)\<rparr>"

definition useTodo :: "'s todo_value list \<Rightarrow> 's todo_value" where
  "useTodo providers = useContext TodoContext providers"

text \<open>The theme context (themSwitcher README.md, lines 114-124).\<close>

record 's theme_value =
  v_themeMode :: string
  v_darkTheme :: "'s effect"
  v_lightTheme :: "'s effect"

definition ThemeContext :: "'s theme_value react_context" where
  "ThemeContext =
     createContext
       \<lparr>v_themeMode = ''light'', v_darkTheme = empty_body, v_lightTheme = empty_body\<rparr>"

definition useTheme :: "'s theme_value list \<Rightarrow> 's theme_value" where
  "useTheme providers = useContext ThemeContext providers"

text \<open>
  The user context is created with no argument, \<^verbatim>\<open>React.createContext()\<close>: its
  default value is \<^verbatim>\<open>undefined\<close>, modelled as \<open>None\<close>. A provider's value is
  \<^verbatim>\<open>{ user, setUser }\<close>, where \<^verbatim>\<open>user\<close> is an object with string fields (\<^verbatim>\<open>{}\<close> at
  first, \<^verbatim>\<open>{ username, password }\<close> after a login).
\<close>

record 's user_value =
  v_user :: "string \<rightharpoonup> string"
  v_setUser :: "(string \<rightharpoonup> string) \<Rightarrow> 's effect"

definition UserContext :: "'s user_value option react_context" where
  "UserContext = createContext None"

text \<open>
  A call of a hook ends, like every JavaScript call, with an exception or with a value.
  None of the three hooks has a throwing path: \<^verbatim>\<open>useContext\<close> only reads the value of
  the nearest provider or the default, with or without a provider around the caller,
  and the bodies of \<^verbatim>\<open>useTodo\<close> and \<^verbatim>\<open>useTheme\<close> are the single statement
  \<^verbatim>\<open>return useContext(...)\<close>. The outcome of a call is the normal completion with the
  value defined above.
\<close>

definition useContext_call :: "'v react_context \<Rightarrow> 'v list \<Rightarrow> js_error + 'v" where
  "useContext_call c providers = Inr (useContext c providers)"

definition useTodo_call :: "'s todo_value list \<Rightarrow> js_error + 's todo_value" where
  "useTodo_call providers = Inr (useTodo providers)"

definition useTheme_call :: "'s theme_value list \<Rightarrow> js_error + 's theme_value" where
  "useTheme_call providers = Inr (useTheme providers)"

section \<open>Properties of the mutators\<close>

lemma updatedTodo_length: "length (updatedTodo i t prev) = length prev"
  by (simp add: updatedTodo_def)

lemma updatedTodo_absent: "i \<notin> todo_id ` set prev \<Longrightarrow> updatedTodo i t prev = prev"
  by (induction prev) (auto simp: updatedTodo_def)

lemma toggleComplete_ids: "map todo_id (toggleComplete i prev) = map todo_id prev"
  by (induction prev) (auto simp: toggleComplete_def)

lemma toggleComplete_twice: "toggleComplete i (toggleComplete i prev) = prev"
  by (induction prev) (auto simp: toggleComplete_def)

lemma deleteTodo_absent: "i \<notin> todo_id ` set prev \<Longrightarrow> deleteTodo i prev = Inr prev"
  by (induction prev) (auto simp: deleteTodo_def)

lemma deleteTodo_present:
  "i \<in> todo_id ` set prev \<Longrightarrow> deleteTodo i prev = Inl (ReferenceError ''todo'')"
  by (induction prev) (auto simp: deleteTodo_def split: sum.splits)

lemma ids_added_records: "map todo_id (added_records cs) = rev (clock_readings cs)"
  by (induction cs rule: added_records.induct) simp_all

text \<open>A run whose deletes all miss returns the added records in front of the
  collection it started from; the start is generalised for the induction.\<close>

lemma run_calls_absent:
  "deletes_absent cs (map todo_id s) \<Longrightarrow> run_calls cs s = Inr (added_records cs @ s)"
proof (induction cs arbitrary: s)
  case Nil
  then show ?case by simp
next
  case (Cons c cs)
  show ?case
  proof (cases c)
    case (CallAddTodo now p)
    with Cons.prems have "deletes_absent cs (map todo_id (addTodo now p s))"
      by (simp add: addTodo_def)
    from Cons.IH [OF this] CallAddTodo show ?thesis
      by (simp add: addTodo_def)
  next
    case (CallDeleteTodo i)
    with Cons.prems have abs: "i \<notin> todo_id ` set s" and rest: "deletes_absent cs (map todo_id s)"
      by simp_all
    from deleteTodo_absent [OF abs] Cons.IH [OF rest] CallDeleteTodo show ?thesis
      by simp
  qed
qed

text \<open>Conversely, a run in which some delete names an id that is in the collection
  when it runs ends in the ReferenceError of that delete.\<close>

lemma run_calls_present:
  "\<not> deletes_absent cs (map todo_id s) \<Longrightarrow> run_calls cs s = Inl (ReferenceError ''todo'')"
proof (induction cs arbitrary: s)
  case Nil
  then show ?case by simp
next
  case (Cons c cs)
  show ?case
  proof (cases c)
    case (CallAddTodo now p)
    with Cons.prems have "\<not> deletes_absent cs (map todo_id (addTodo now p s))"
      by (simp add: addTodo_def)
    from Cons.IH [OF this] CallAddTodo show ?thesis
      by simp
  next
    case (CallDeleteTodo i)
    show ?thesis
    proof (cases "i \<in> todo_id ` set s")
      case True
      from deleteTodo_present [OF True] CallDeleteTodo show ?thesis by simp
    next
      case False
      with Cons.prems CallDeleteTodo have "\<not> deletes_absent cs (map todo_id s)" by simp
      from Cons.IH [OF this] deleteTodo_absent [OF False] CallDeleteTodo show ?thesis by simp
    qed
  qed
qed

lemma invoke_declared: "invoke c s \<in> {''light'', ''dark''}"
  by (cases c) (simp_all add: lightTheme_def darkTheme_def)

lemma run_setters_declared:
  "s \<in> {''light'', ''dark''} \<Longrightarrow> run_setters calls s \<in> {''light'', ''dark''}"
proof (induction calls rule: rev_induct)
  case Nil
  then show ?case by (simp add: run_setters_def)
next
  case (snoc c calls)
  have "run_setters (calls @ [c]) s = invoke c (run_setters calls s)"
    by (simp add: run_setters_def)
  then show ?case using invoke_declared by simp
qed

section \<open>The claims about the todo mutators\<close>

text \<open>
  C1 (the code departs from it). The claim: for every collection and id, the delete
  operation returns the collection with the matching record filtered out, and the
  collection unchanged when no record has that id. The second half holds
  (\<open>deleteTodo_absent\<close>). On a collection that holds the id, \<^verbatim>\<open>deleteTodo\<close> reads the
  unbound identifier \<^verbatim>\<open>todo\<close> and raises instead of removing the record
  (\<open>deleteTodo_present\<close>); evaluated here on the one-record collection with id 1.
\<close>

theorem C1_deleteTodo_raises:
  "deleteTodo 1 [\<lparr>todo = ''buy milk'', completed = False, todo_id = 1\<rparr>]
     = Inl (ReferenceError ''todo'')"
  by (simp add: deleteTodo_def)

text \<open>
  C2 as stated fails: two adds that read the same clock value leave two records
  with the same id in the collection.
\<close>

theorem C2_duplicate_ids:
  "run_calls [CallAddTodo 5 \<lparr>todo = ''buy milk'', completed = False\<rparr>,
              CallAddTodo 5 \<lparr>todo = ''walk dog'', completed = False\<rparr>] []
     = Inr [\<lparr>todo = ''walk dog'', completed = False, todo_id = 5\<rparr>,
            \<lparr>todo = ''buy milk'', completed = False, todo_id = 5\<rparr>]
   \<and> \<not> distinct (map todo_id
        [\<lparr>todo = ''walk dog'', completed = False, todo_id = 5\<rparr>,
         \<lparr>todo = ''buy milk'', completed = False, todo_id = 5\<rparr>])"
  by (simp add: addTodo_def)

text \<open>
  C2 (amended). For every sequence of \<^verbatim>\<open>addTodo\<close> and \<^verbatim>\<open>deleteTodo\<close> calls started from
  the empty collection, in which the adds read pairwise distinct clock values and no
  \<^verbatim>\<open>deleteTodo\<close> names an id that is in the collection when it runs: the run returns,
  the resulting collection is exactly the records added, the most recent first (a
  delete of an absent id removes nothing), and no two records have the same id.
\<close>

theorem C2_run_calls:
  "distinct (clock_readings cs) \<Longrightarrow> deletes_absent cs [] \<Longrightarrow>
     run_calls cs [] = Inr (added_records cs) \<and> distinct (map todo_id (added_records cs))"
  using run_calls_absent [of cs "[]"] by (simp add: ids_added_records)

theorem C2_run_calls_witness:
  "run_calls [CallAddTodo 10 \<lparr>todo = ''buy milk'', completed = False\<rparr>,
              CallDeleteTodo 7,
              CallAddTodo 11 \<lparr>todo = ''walk dog'', completed = False\<rparr>] []
     = Inr [\<lparr>todo = ''walk dog'', completed = False, todo_id = 11\<rparr>,
            \<lparr>todo = ''buy milk'', completed = False, todo_id = 10\<rparr>]
   \<and> distinct (map todo_id
        [\<lparr>todo = ''walk dog'', completed = False, todo_id = 11\<rparr>,
         \<lparr>todo = ''buy milk'', completed = False, todo_id = 10\<rparr>])"
  using C2_run_calls [of "[CallAddTodo 10 \<lparr>todo = ''buy milk'', completed = False\<rparr>,
              CallDeleteTodo 7,
              CallAddTodo 11 \<lparr>todo = ''walk dog'', completed = False\<rparr>]"]
  by simp

text \<open>
  C5 as stated fails: two consecutive adds on the empty collection that read the same
  clock value give two records with the same id.
\<close>

theorem C5_same_clock:
  "\<not> distinct (map todo_id
       (addTodo 5 \<lparr>todo = ''walk dog'', completed = False\<rparr>
         (addTodo 5 \<lparr>todo = ''buy milk'', completed = False\<rparr> [])))"
  by (simp add: addTodo_def)

text \<open>
  C5 (amended). For every collection, payload and clock reading, \<^verbatim>\<open>addTodo\<close> returns
  \<^verbatim>\<open>[newRecord, ...state]\<close>, where the new record is the payload with the clock
  reading \<^verbatim>\<open>Date.now()\<close> as its id; the ids stay pairwise distinct when they were and
  the reading is the id of no record of the collection. Two consecutive adds on the
  empty collection give a collection of length 2, the most recent first, each record
  with the completed flag of its payload (false for the form's payloads), and with
  distinct ids when the two clock readings differ.
\<close>

theorem C5_addTodo:
  "addTodo now p prev = \<lparr>todo = todo p, completed = completed p, todo_id = now\<rparr> # prev \<and>
   (distinct (map todo_id prev) \<and> now \<notin> todo_id ` set prev
      \<longrightarrow> distinct (map todo_id (addTodo now p prev))) \<and>
   length (addTodo now2 p2 (addTodo now1 p1 [])) = 2 \<and>
   map todo (addTodo now2 p2 (addTodo now1 p1 [])) = [todo p2, todo p1] \<and>
   map completed (addTodo now2 p2 (addTodo now1 p1 [])) = [completed p2, completed p1] \<and>
   (now1 \<noteq> now2 \<longrightarrow> distinct (map todo_id (addTodo now2 p2 (addTodo now1 p1 []))))"
  by (auto simp: addTodo_def)

theorem C5_addTodo_witness:
  "distinct (map todo_id
     (addTodo 12 \<lparr>todo = ''feed cat'', completed = False\<rparr>
        [\<lparr>todo = ''walk dog'', completed = False, todo_id = 11\<rparr>]))
   \<and> map todo (addTodo 11 \<lparr>todo = ''walk dog'', completed = False\<rparr>
        (addTodo 10 \<lparr>todo = ''buy milk'', completed = False\<rparr> []))
      = [''walk dog'', ''buy milk'']
   \<and> map completed (addTodo 11 \<lparr>todo = ''walk dog'', completed = False\<rparr>
        (addTodo 10 \<lparr>todo = ''buy milk'', completed = False\<rparr> []))
      = [False, False]
   \<and> distinct (map todo_id (addTodo 11 \<lparr>todo = ''walk dog'', completed = False\<rparr>
        (addTodo 10 \<lparr>todo = ''buy milk'', completed = False\<rparr> [])))"
  using
    C5_addTodo [of 12 "\<lparr>todo = ''feed cat'', completed = False\<rparr>"
      "[\<lparr>todo = ''walk dog'', completed = False, todo_id = 11\<rparr>]"
      11 "\<lparr>todo = ''walk dog'', completed = False\<rparr>"
      10 "\<lparr>todo = ''buy milk'', completed = False\<rparr>"]
  by simp

text \<open>
  C6 (the code departs from it). The claim: each of the four mutators leaves its input
  collection unchanged and produces a new collection value, for every collection and
  arguments. \<^verbatim>\<open>addTodo\<close>, \<^verbatim>\<open>updatedTodo\<close> and \<^verbatim>\<open>toggleComplete\<close> build their
  result with a spread or with \<^verbatim>\<open>map\<close> and assign to nothing. \<^verbatim>\<open>deleteTodo\<close> produces no
  collection at all when the id is present: the updater raises.
\<close>

theorem C6_deleteTodo_no_result:
  "\<not> (\<exists>ts. deleteTodo 2 [\<lparr>todo = ''walk dog'', completed = False, todo_id = 1\<rparr>,
                          \<lparr>todo = ''buy milk'', completed = True, todo_id = 2\<rparr>] = Inr ts)"
  by (simp add: deleteTodo_def)

text \<open>
  C7. For every collection, id and patch, \<^verbatim>\<open>updatedTodo(id, patch)\<close> returns a
  collection of the same length in which every record whose id matches is replaced by
  the patch and every record whose id does not match is the record of the input at
  that position; when no record has the id, the result is the input collection.
\<close>

theorem C7_updatedTodo:
  "length (updatedTodo i t prev) = length prev \<and>
   (\<forall>k < length prev.
      updatedTodo i t prev ! k = (if todo_id (prev ! k) = i then t else prev ! k)) \<and>
   (i \<notin> todo_id ` set prev \<longrightarrow> updatedTodo i t prev = prev)"
  using updatedTodo_absent [of i prev t] by (simp add: updatedTodo_def)

theorem C7_updatedTodo_witness:
  "updatedTodo 1 \<lparr>todo = ''buy oat milk'', completed = False, todo_id = 1\<rparr>
     [\<lparr>todo = ''walk dog'', completed = False, todo_id = 2\<rparr>,
      \<lparr>todo = ''buy milk'', completed = False, todo_id = 1\<rparr>] ! 0
     = \<lparr>todo = ''walk dog'', completed = False, todo_id = 2\<rparr>
   \<and> updatedTodo 1 \<lparr>todo = ''buy oat milk'', completed = False, todo_id = 1\<rparr>
     [\<lparr>todo = ''walk dog'', completed = False, todo_id = 2\<rparr>,
      \<lparr>todo = ''buy milk'', completed = False, todo_id = 1\<rparr>] ! 1
     = \<lparr>todo = ''buy oat milk'', completed = False, todo_id = 1\<rparr>
   \<and> updatedTodo 7 \<lparr>todo = ''buy oat milk'', completed = False, todo_id = 7\<rparr>
     [\<lparr>todo = ''walk dog'', completed = False, todo_id = 2\<rparr>,
      \<lparr>todo = ''buy milk'', completed = False, todo_id = 1\<rparr>]
     = [\<lparr>todo = ''walk dog'', completed = False, todo_id = 2\<rparr>,
        \<lparr>todo = ''buy milk'', completed = False, todo_id = 1\<rparr>]"
  using
    C7_updatedTodo [of 1 "\<lparr>todo = ''buy oat milk'', completed = False, todo_id = 1\<rparr>"
      "[\<lparr>todo = ''walk dog'', completed = False, todo_id = 2\<rparr>,
        \<lparr>todo = ''buy milk'', completed = False, todo_id = 1\<rparr>]"]
    C7_updatedTodo [of 7 "\<lparr>todo = ''buy oat milk'', completed = False, todo_id = 7\<rparr>"
      "[\<lparr>todo = ''walk dog'', completed = False, todo_id = 2\<rparr>,
        \<lparr>todo = ''buy milk'', completed = False, todo_id = 1\<rparr>]"]
  by (simp add: All_less_Suc)

text \<open>
  C8. For every collection and id, \<^verbatim>\<open>toggleComplete(id)\<close> applied twice gives the
  collection back, so the completed flag of a matching record returns to its original
  value; one application keeps the length, negates the completed flag of every record
  whose id matches, leaving its other fields, and keeps every other record.
\<close>

theorem C8_toggleComplete:
  "toggleComplete i (toggleComplete i prev) = prev \<and>
   length (toggleComplete i prev) = length prev \<and>
   (\<forall>k < length prev.
      toggleComplete i prev ! k =
        (if todo_id (prev ! k) = i
         then (prev ! k)\<lparr>completed := \<not> completed (prev ! k)\<rparr>
         else prev ! k))"
  using toggleComplete_twice [of i prev] by (simp add: toggleComplete_def)

theorem C8_toggleComplete_witness:
  "toggleComplete 1 (toggleComplete 1
     [\<lparr>todo = ''walk dog'', completed = False, todo_id = 2\<rparr>,
      \<lparr>todo = ''buy milk'', completed = False, todo_id = 1\<rparr>])
     = [\<lparr>todo = ''walk dog'', completed = False, todo_id = 2\<rparr>,
        \<lparr>todo = ''buy milk'', completed = False, todo_id = 1\<rparr>]
   \<and> toggleComplete 1
     [\<lparr>todo = ''walk dog'', completed = False, todo_id = 2\<rparr>,
      \<lparr>todo = ''buy milk'', completed = False, todo_id = 1\<rparr>] ! 0
     = \<lparr>todo = ''walk dog'', completed = False, todo_id = 2\<rparr>
   \<and> toggleComplete 1
     [\<lparr>todo = ''walk dog'', completed = False, todo_id = 2\<rparr>,
      \<lparr>todo = ''buy milk'', completed = False, todo_id = 1\<rparr>] ! 1
     = \<lparr>todo = ''buy milk'', completed = True, todo_id = 1\<rparr>"
  using
    C8_toggleComplete [of 1
      "[\<lparr>todo = ''walk dog'', completed = False, todo_id = 2\<rparr>,
        \<lparr>todo = ''buy milk'', completed = False, todo_id = 1\<rparr>]"]
  by (simp add: All_less_Suc)

section \<open>The claim about the theme store\<close>

text \<open>
  C9. The theme state starts at \<^verbatim>\<open>light\<close>; the dark setter makes it \<^verbatim>\<open>dark\<close>; the
  light setter afterwards makes it \<^verbatim>\<open>light\<close> again; and after every sequence of setter
  invocations the state is \<^verbatim>\<open>light\<close> or \<^verbatim>\<open>dark\<close>.
\<close>

theorem C9_theme:
  "themeMode_initial = ''light'' \<and>
   darkTheme themeMode_initial = ''dark'' \<and>
   lightTheme (darkTheme themeMode_initial) = ''light'' \<and>
   (\<forall>calls. run_setters calls themeMode_initial \<in> {''light'', ''dark''})"
  using run_setters_declared [of themeMode_initial]
  by (simp add: themeMode_initial_def lightTheme_def darkTheme_def)

section \<open>The claim about the rate lookup\<close>

text \<open>
  C3 as stated fails: \<^verbatim>\<open>fetch\<close> fulfils on a non-2xx response, so a 404 whose body is
  a JSON object without \<^verbatim>\<open>rates\<close> reaches \<^verbatim>\<open>setData(res.rates)\<close> and leaves
  \<^verbatim>\<open>undefined\<close> as the data, not the empty mapping.
\<close>

theorem C3_non_2xx:
  "useCurrencyInfo_effect
     (Responded \<lparr>status = 404, body = Parsed (JObj [(''result'', JStr ''error'')])\<rparr>)
     useCurrencyInfo_initial = Inr Undefined
   \<and> Undefined \<noteq> JSON (JObj [])"
  by (simp add: useCurrencyInfo_effect_def fetch_def response_json_def rates_def
      promise_then_def promise_catch_def setData_def)

text \<open>
  C3 (amended). In every environment the effect of \<^verbatim>\<open>useCurrencyInfo\<close> ends with a data
  value and no exception reaches the caller. The data is the empty mapping after a
  network error, after a body that is not JSON and after a body that is JSON
  \<^verbatim>\<open>null\<close>; after any other JSON body, whatever the HTTP status, the data is the
  body's \<^verbatim>\<open>rates\<close> property (\<^verbatim>\<open>undefined\<close> when the body has none).
\<close>

theorem C3_useCurrencyInfo:
  "(\<exists>d. useCurrencyInfo_effect out data = Inr d) \<and>
   (out = NetworkFailure \<longrightarrow> useCurrencyInfo_effect out data = Inr (JSON (JObj []))) \<and>
   (\<forall>res. out = Responded res \<and> body res = Malformed
      \<longrightarrow> useCurrencyInfo_effect out data = Inr (JSON (JObj []))) \<and>
   (\<forall>res. out = Responded res \<and> body res = Parsed JNull
      \<longrightarrow> useCurrencyInfo_effect out data = Inr (JSON (JObj []))) \<and>
   (\<forall>res v r. out = Responded res \<and> body res = Parsed v \<and> rates v = Inr r
      \<longrightarrow> useCurrencyInfo_effect out data = Inr r)"
  by (auto simp: useCurrencyInfo_effect_def fetch_def response_json_def rates_def
      promise_then_def promise_catch_def setData_def
      split: fetch_outcome.splits parsed.splits sum.splits json.splits option.splits)

theorem C3_useCurrencyInfo_witness:
  "useCurrencyInfo_effect NetworkFailure useCurrencyInfo_initial = Inr (JSON (JObj [])) \<and>
   useCurrencyInfo_effect (Responded \<lparr>status = 200, body = Malformed\<rparr>)
     useCurrencyInfo_initial = Inr (JSON (JObj [])) \<and>
   useCurrencyInfo_effect (Responded \<lparr>status = 500, body = Parsed JNull\<rparr>)
     useCurrencyInfo_initial = Inr (JSON (JObj [])) \<and>
   useCurrencyInfo_effect
     (Responded \<lparr>status = 200,
        body = Parsed (JObj [(''base'', JStr ''USD''),
                             (''rates'', JObj [(''EUR'', JNum (23 / 25)), (''INR'', JNum 83)])])\<rparr>)
     useCurrencyInfo_initial
     = Inr (JSON (JObj [(''EUR'', JNum (23 / 25)), (''INR'', JNum 83)]))"
  using
    C3_useCurrencyInfo [of NetworkFailure useCurrencyInfo_initial]
    C3_useCurrencyInfo [of "Responded \<lparr>status = 200, body = Malformed\<rparr>"
      useCurrencyInfo_initial]
    C3_useCurrencyInfo [of "Responded \<lparr>status = 500, body = Parsed JNull\<rparr>"
      useCurrencyInfo_initial]
    C3_useCurrencyInfo [of "Responded \<lparr>status = 200,
        body = Parsed (JObj [(''base'', JStr ''USD''),
                             (''rates'', JObj [(''EUR'', JNum (23 / 25)), (''INR'', JNum 83)])])\<rparr>"
      useCurrencyInfo_initial]
  by (simp add: rates_def)

section \<open>The claims about the consumer hooks\<close>

text \<open>
  C4 as stated fails for the todo store and the theme store. The default value of
  \<^verbatim>\<open>TodoContext\<close> and of \<^verbatim>\<open>ThemeContext\<close> is an ordinary value of the store: under
  a provider that passes such a value the hook returns the same as outside any
  provider, so no test of the returned value tells the caller that the provider is
  missing.
\<close>

theorem C4_default_not_detectable:
  "useTodo
     [\<lparr>v_todos = [\<lparr>todo = '' Todo msg'', completed = False, todo_id = 1\<rparr>],
       v_addTodo = (\<lambda>_. empty_body),
       v_updatedTodo = (\<lambda>_ _. empty_body),
       v_deleteTodo = (\<lambda>_. empty_body),
       v_toggleComplete = (\<lambda>_. empty_body)\<rparr>] = useTodo [] \<and>
   useTheme
     [\<lparr>v_themeMode = ''light'', v_darkTheme = empty_body, v_lightTheme = empty_body\<rparr>]
     = useTheme [] \<and>
   \<not> (\<exists>detect. detect (useTodo []) \<and> (\<forall>v ps. \<not> detect (useTodo (v # ps)))) \<and>
   \<not> (\<exists>detect. detect (useTheme []) \<and> (\<forall>v ps. \<not> detect (useTheme (v # ps))))"
proof -
  have todo: "useTodo [defaultValue TodoContext] = useTodo []"
    by (simp add: useTodo_def useContext_def)
  have theme: "useTheme [defaultValue ThemeContext] = useTheme []"
    by (simp add: useTheme_def useContext_def)
  have no_todo: "\<not> (\<exists>detect. detect (useTodo []) \<and> (\<forall>v ps. \<not> detect (useTodo (v # ps))))"
    using todo by metis
  have no_theme: "\<not> (\<exists>detect. detect (useTheme []) \<and> (\<forall>v ps. \<not> detect (useTheme (v # ps))))"
    using theme by metis
  from todo theme no_todo no_theme show ?thesis
    by (simp add: TodoContext_def ThemeContext_def createContext_def)
qed

text \<open>
  C4 (amended). Outside any provider each consumer hook ends without an exception and
  returns the default value its context was created with: the default object for
  \<^verbatim>\<open>useTodo\<close> and \<^verbatim>\<open>useTheme\<close>, \<^verbatim>\<open>undefined\<close> for \<^verbatim>\<open>useContext(UserContext)\<close>. Inside a
  provider each hook returns, again without an exception, the value of the innermost
  provider. \<^verbatim>\<open>undefined\<close> is a sentinel the caller can detect: it differs from what
  \<^verbatim>\<open>useContext(UserContext)\<close> returns under a provider that passes an object. The
  defaults of \<^verbatim>\<open>useTodo\<close> and \<^verbatim>\<open>useTheme\<close> are no sentinel: under a provider that passes
  the default value the hook returns what it returns outside any provider.
\<close>

theorem C4_hooks_outside_provider:
  "useTodo_call [] = Inr (defaultValue TodoContext) \<and>
   useTheme_call [] = Inr (defaultValue ThemeContext) \<and>
   useContext_call UserContext [] = Inr None \<and>
   (\<forall>v ps. useTodo_call (v # ps) = Inr v) \<and>
   (\<forall>v ps. useTheme_call (v # ps) = Inr v) \<and>
   (\<forall>v ps. useContext_call UserContext (v # ps) = Inr v) \<and>
   (\<forall>v ps. useContext_call UserContext (Some v # ps) \<noteq> useContext_call UserContext []) \<and>
   useTodo_call [defaultValue TodoContext] = useTodo_call [] \<and>
   useTheme_call [defaultValue ThemeContext] = useTheme_call []"
  by (simp add: useTodo_call_def useTheme_call_def useContext_call_def
      useTodo_def useTheme_def useContext_def UserContext_def createContext_def)

text \<open>
  C10. Outside any \<^verbatim>\<open>TodoProvider\<close>, the value \<^verbatim>\<open>useTodo\<close> returns has a collection
  with exactly one record, the placeholder \<^verbatim>\<open>{id: 1, todo: " Todo msg", completed: false}\<close>,
  and each of its four mutators returns \<^verbatim>\<open>undefined\<close> and leaves every state as it is.
\<close>

theorem C10_default:
  "v_todos (useTodo []) = [\<lparr>todo = '' Todo msg'', completed = False, todo_id = 1\<rparr>] \<and>
   (\<forall>p s. v_addTodo (useTodo []) p s = Inr (Undefined, s)) \<and>
   (\<forall>i t s. v_updatedTodo (useTodo []) i t s = Inr (Undefined, s)) \<and>
   (\<forall>i s. v_deleteTodo (useTodo []) i s = Inr (Undefined, s)) \<and>
   (\<forall>i s. v_toggleComplete (useTodo []) i s = Inr (Undefined, s))"
  by (simp add: useTodo_def useContext_def TodoContext_def createContext_def empty_body_def)

end
